theory Spec2Isabelle
  imports Main
begin

section \<open>Data model of \<open>cmd/switcher/switch.go\<close>\<close>

text \<open>
  \<open>types.StoreKind\<close> is a string type; the two constants the \<open>switch\<close> statement of the
  root command compares against are declared in package \<open>types\<close>.

  Modelled from the spec: the values of \<open>types.StoreKindFilesystem\<close> and
  \<open>types.StoreKindVault\<close> (package \<open>types\<close> is not part of the sources at hand) are taken
  from the help text of the \<open>--store\<close> flag, which names the two accepted values (and has the
  first as its default). The theorems below only rely on the two constants being different,
  which Go itself enforces for the constant cases of one \<open>switch\<close>.
\<close>

type_synonym StoreKind = string

definition StoreKindFilesystem :: StoreKind where
  "StoreKindFilesystem = ''filesystem''"

definition StoreKindVault :: StoreKind where
  "StoreKindVault = ''vault''"

text \<open>\<open>types.KubeconfigPath\<close> and the fields of \<open>types.Config\<close> that the command reads.\<close>

record KubeconfigPath =
  Path :: string
  Store :: StoreKind

record Config =
  KubeconfigPaths :: "KubeconfigPath list"
  VaultAPIAddress :: string

text \<open>
  Go errors. \<open>fmt.Errorf\<close> is kept symbolic: the format string and its arguments, so that no
  model of \<open>%q\<close> or \<open>%v\<close> rendering is needed. \<open>External\<close> is an error produced by a library
  call (\<open>os\<close>, \<open>ioutil\<close>, \<open>config\<close>, \<open>vaultapi\<close>).
\<close>

datatype error = External string | Errorf string "fmtarg list"
and fmtarg = ArgString string | ArgError error

text \<open>\<open>logrus.New().WithField(key, value)\<close>: the entry is identified by its field.\<close>

datatype LogEntry = WithField string string

text \<open>
  \<open>vaultapi.Config\<close> and the client handle. The handle is opaque to the command, so it is
  represented by the calls made on it: the configuration \<open>NewClient\<close> was given and the token
  of the last \<open>SetToken\<close>.
\<close>

record VaultConfig =
  Address :: string

record VaultClient =
  clientConfig :: VaultConfig
  clientToken :: string

record FilesystemStore =
  fsLogger :: LogEntry
  fsKubeconfigPaths :: "KubeconfigPath list"
  fsKubeconfigName :: string

record VaultStore =
  vsLogger :: LogEntry
  vsKubeconfigName :: string
  vsKubeconfigPaths :: "KubeconfigPath list"
  vsClient :: VaultClient

text \<open>The interface \<open>store.KubeconfigStore\<close> with its two implementations.\<close>

datatype KubeconfigStore = FilesystemStoreOf FilesystemStore | VaultStoreOf VaultStore

text \<open>The package-level variables bound to the command-line flags.\<close>

record Flags =
  kubeconfigPath :: string
  kubeconfigName :: string
  showPreview :: bool
  storageBackend :: string
  vaultAPIAddressFromFlag :: string
  configPath :: string
  stateDirectory :: string
  hookName :: string
  runImmediately :: bool

text \<open>
  What the command reads from its surroundings. \<open>Getenv\<close> gives the empty string for an unset
  variable, as \<open>os.Getenv\<close> does. \<open>ReadFile\<close> returns Go's pair: the bytes (\<open>None\<close> is the
  \<open>nil\<close> slice) and the error (\<open>None\<close> is \<open>nil\<close>). \<open>LoadConfigFromFile\<close> returns an error or
  a possibly \<open>nil\<close> configuration. \<open>NewClientFails\<close> tells whether \<open>vaultapi.NewClient\<close>
  fails on a configuration.
\<close>

record World =
  Getenv :: "string \<Rightarrow> string"
  UserHomeDir :: "error + string"
  ReadFile :: "string \<Rightarrow> string option \<times> error option"
  LoadConfigFromFile :: "string \<Rightarrow> error + Config option"
  NewClientFails :: "VaultConfig \<Rightarrow> error option"

text \<open>
  A command's \<open>RunE\<close> either returns an error itself or ends in a call into another package
  whose result it returns; the call is recorded with its arguments.
\<close>

datatype 'call Outcome = Return error | TailCall 'call

text \<open>The arguments of \<open>pkg.Switcher\<close> and of \<open>hooks.Hooks\<close>.\<close>

record SwitcherCall =
  swStores :: "KubeconfigStore list"
  swConfig :: Config
  swConfigPath :: string
  swStateDirectory :: string
  swShowPreview :: bool

record HooksCall =
  hkLog :: LogEntry
  hkConfigPath :: string
  hkStateDirectory :: string
  hkHookName :: string
  hkRunImmediately :: bool

section \<open>\<open>getVaultStore\<close>\<close>

definition vaultTokenFileName :: string where
  "vaultTokenFileName = ''.vault-token''"

definition missingVaultAddress :: error where
  "missingVaultAddress = Errorf
     ''when using the vault kubeconfig store, the API address of the vault has to be provided either by command line argument \"vaultAPI\", via environment variable \"VAULT_ADDR\" or via SwitchConfig file''
     []"

definition missingVaultToken :: error where
  "missingVaultToken = Errorf
     ''when using the vault kubeconfig store, a vault API token must be provided.  Per default, the token file in  \"~.vault-token\" is used. The default token can be overriden via the  environment variable \"VAULT_TOKEN\"''
     []"

text \<open>Lines 101-110: the value of the local variable \<open>vaultAPI\<close> when it is tested.\<close>

definition vaultAPI :: "World \<Rightarrow> Flags \<Rightarrow> string \<Rightarrow> string" where
  "vaultAPI w fl vaultAPIAddressFromSwitchConfig =
     (let vaultAPI = vaultAPIAddressFromSwitchConfig;
          vaultAPI = (if length (vaultAPIAddressFromFlag fl) > 0
                      then vaultAPIAddressFromFlag fl else vaultAPI);
          vaultAddress = Getenv w ''VAULT_ADDR'';
          vaultAPI = (if length vaultAddress > 0 then vaultAddress else vaultAPI)
      in vaultAPI)"

text \<open>Lines 121-132: the value of the local variable \<open>vaultToken\<close> when it is tested.\<close>

definition vaultToken :: "World \<Rightarrow> string \<Rightarrow> string" where
  "vaultToken w home =
     (let vaultToken = [];
          tokenBytes = fst (ReadFile w (home @ ''/'' @ vaultTokenFileName));
          vaultToken = (case tokenBytes of None \<Rightarrow> vaultToken | Some bs \<Rightarrow> bs);
          vaultTokenEnv = Getenv w ''VAULT_TOKEN'';
          vaultToken = (if length vaultTokenEnv > 0 then vaultTokenEnv else vaultToken)
      in vaultToken)"

definition getVaultStore ::
  "World \<Rightarrow> Flags \<Rightarrow> string \<Rightarrow> KubeconfigPath list \<Rightarrow> error + VaultStore" where
  "getVaultStore w fl vaultAPIAddressFromSwitchConfig paths =
     (let api = vaultAPI w fl vaultAPIAddressFromSwitchConfig in
      if length api = 0 then Inl missingVaultAddress
      else case UserHomeDir w of
        Inl err \<Rightarrow> Inl err
      | Inr home \<Rightarrow>
          let token = vaultToken w home in
          if length token = 0 then Inl missingVaultToken
          else let config = \<lparr>Address = api\<rparr> in
            case NewClientFails w config of
              Some err \<Rightarrow> Inl err
            | None \<Rightarrow>
                Inr \<lparr>vsLogger = WithField ''store'' StoreKindVault,
                     vsKubeconfigName = kubeconfigName fl,
                     vsKubeconfigPaths = paths,
                     vsClient = \<lparr>clientConfig = config, clientToken = token\<rparr>\<rparr>)"

section \<open>The root command\<close>

text \<open>Lines 51-56: the optional entry from \<open>--kubeconfig-path\<close> and \<open>--store\<close>.\<close>

definition appendKubeconfigPathFlag :: "Flags \<Rightarrow> Config \<Rightarrow> Config" where
  "appendKubeconfigPathFlag fl switchConfig =
     (if length (kubeconfigPath fl) > 0
      then switchConfig\<lparr>KubeconfigPaths := KubeconfigPaths switchConfig @
             [\<lparr>Path = kubeconfigPath fl, Store = storageBackend fl\<rparr>]\<rparr>
      else switchConfig)"

text \<open>Line 89: the error of the \<open>default\<close> case.\<close>

definition unknownStore :: "KubeconfigPath \<Rightarrow> error" where
  "unknownStore configuredKubeconfigPath =
     Errorf ''unknown store %q'' [ArgString (Store configuredKubeconfigPath)]"

text \<open>Lines 58-62: the variables of the loop.\<close>

record LoopVars =
  useVaultStore :: bool
  useFilesystemStore :: bool
  stores :: "KubeconfigStore list"

definition initialLoopVars :: LoopVars where
  "initialLoopVars = \<lparr>useVaultStore = False, useFilesystemStore = False, stores = []\<rparr>"

text \<open>
  Lines 64-93: the \<open>range\<close> loop over \<open>switchConfig.KubeconfigPaths\<close>. The result is the
  variables when the loop is left, and the error it returned with, if any.
\<close>

fun storesLoop ::
  "World \<Rightarrow> Flags \<Rightarrow> Config \<Rightarrow> KubeconfigPath list \<Rightarrow> LoopVars \<Rightarrow> LoopVars \<times> error option" where
  "storesLoop w fl switchConfig [] vars = (vars, None)"
| "storesLoop w fl switchConfig (configuredKubeconfigPath # rest) vars =
     (if Store configuredKubeconfigPath = StoreKindFilesystem then
        if useFilesystemStore vars then storesLoop w fl switchConfig rest vars
        else
          let s = FilesystemStoreOf
                    \<lparr>fsLogger = WithField ''store'' StoreKindFilesystem,
                     fsKubeconfigPaths = KubeconfigPaths switchConfig,
                     fsKubeconfigName = kubeconfigName fl\<rparr>
          in storesLoop w fl switchConfig rest
               (vars\<lparr>useFilesystemStore := True, stores := stores vars @ [s]\<rparr>)
      else if Store configuredKubeconfigPath = StoreKindVault then
        if useVaultStore vars then storesLoop w fl switchConfig rest vars
        else
          case getVaultStore w fl (VaultAPIAddress switchConfig) (KubeconfigPaths switchConfig) of
            Inl err \<Rightarrow> (vars\<lparr>useVaultStore := True\<rparr>, Some err)
          | Inr vaultStore \<Rightarrow>
              storesLoop w fl switchConfig rest
                (vars\<lparr>useVaultStore := True, stores := stores vars @ [VaultStoreOf vaultStore]\<rparr>)
      else (vars, Some (unknownStore configuredKubeconfigPath)))"

text \<open>Lines 42-49: the configuration the command works on, before the flag entry is added.\<close>

definition loadedConfig :: "Config option \<Rightarrow> Config" where
  "loadedConfig switchConfig =
     (case switchConfig of None \<Rightarrow> \<lparr>KubeconfigPaths = [], VaultAPIAddress = []\<rparr> | Some c \<Rightarrow> c)"

definition rootCommand_RunE :: "World \<Rightarrow> Flags \<Rightarrow> SwitcherCall Outcome" where
  "rootCommand_RunE w fl =
     (case LoadConfigFromFile w (configPath fl) of
        Inl err \<Rightarrow> Return (Errorf ''failed to read switch config file: %v'' [ArgError err])
      | Inr loaded \<Rightarrow>
          let switchConfig = appendKubeconfigPathFlag fl (loadedConfig loaded) in
          case storesLoop w fl switchConfig (KubeconfigPaths switchConfig) initialLoopVars of
            (vars, Some err) \<Rightarrow> Return err
          | (vars, None) \<Rightarrow>
              TailCall \<lparr>swStores = stores vars, swConfig = switchConfig,
                        swConfigPath = configPath fl, swStateDirectory = stateDirectory fl,
                        swShowPreview = showPreview fl\<rparr>)"

section \<open>Flag registration and the hooks command\<close>

text \<open>\<open>os.ExpandEnv\<close> on the three paths the flags default to, each of the form \<open>$HOME/...\<close>.\<close>

definition expandHome :: "World \<Rightarrow> string \<Rightarrow> string" where
  "expandHome w suffix = Getenv w ''HOME'' @ suffix"

text \<open>
  The package-level variables after both \<open>init\<close> functions have registered the flags: each
  variable holds its flag's default value.
\<close>

definition init :: "World \<Rightarrow> Flags" where
  "init w =
     \<lparr>kubeconfigPath = expandHome w ''/.kube/config'',
      kubeconfigName = ''config'',
      showPreview = True,
      storageBackend = ''filesystem'',
      vaultAPIAddressFromFlag = [],
      configPath = expandHome w ''/.kube/switch-config.yaml'',
      stateDirectory = expandHome w ''/.kube/switch-state'',
      hookName = [],
      runImmediately = True\<rparr>"

text \<open>
  The flags of the \<open>hooks\<close> command as given on a command line: \<open>None\<close> for a flag that is
  not set there. Parsing stores each given value in the flag's variable.
\<close>

record HookArgs =
  argConfigPath :: "string option"
  argStateDirectory :: "string option"
  argHookName :: "string option"
  argRunImmediately :: "bool option"

definition hookCmd_ParseFlags :: "HookArgs \<Rightarrow> Flags \<Rightarrow> Flags" where
  "hookCmd_ParseFlags args fl =
     fl\<lparr>configPath := (case argConfigPath args of None \<Rightarrow> configPath fl | Some v \<Rightarrow> v),
        stateDirectory := (case argStateDirectory args of None \<Rightarrow> stateDirectory fl | Some v \<Rightarrow> v),
        hookName := (case argHookName args of None \<Rightarrow> hookName fl | Some v \<Rightarrow> v),
        runImmediately := (case argRunImmediately args of None \<Rightarrow> runImmediately fl | Some v \<Rightarrow> v)\<rparr>"

definition hookCmd_RunE :: "Flags \<Rightarrow> HooksCall Outcome" where
  "hookCmd_RunE fl =
     (let log = WithField ''hook'' (hookName fl)
      in TailCall \<lparr>hkLog = log, hkConfigPath = configPath fl,
                   hkStateDirectory = stateDirectory fl, hkHookName = hookName fl,
                   hkRunImmediately = runImmediately fl\<rparr>)"

text \<open>An invocation of the \<open>hooks\<close> command: registration, parsing, \<open>RunE\<close>.\<close>

definition hookCmd_Execute :: "World \<Rightarrow> HookArgs \<Rightarrow> HooksCall Outcome" where
  "hookCmd_Execute w args = hookCmd_RunE (hookCmd_ParseFlags args (init w))"

section \<open>Notions used to state the properties\<close>

text \<open>The backend kind of a store: which implementation the interface value holds.\<close>

fun kindOfStore :: "KubeconfigStore \<Rightarrow> StoreKind" where
  "kindOfStore (FilesystemStoreOf s) = StoreKindFilesystem"
| "kindOfStore (VaultStoreOf s) = StoreKindVault"

text \<open>The field \<open>KubeconfigPaths\<close> of a store, whichever implementation it is.\<close>

fun storeKubeconfigPaths :: "KubeconfigStore \<Rightarrow> KubeconfigPath list" where
  "storeKubeconfigPaths (FilesystemStoreOf s) = fsKubeconfigPaths s"
| "storeKubeconfigPaths (VaultStoreOf s) = vsKubeconfigPaths s"

text \<open>The entries of one backend kind, in their order.\<close>

definition pathsOfKind :: "StoreKind \<Rightarrow> KubeconfigPath list \<Rightarrow> KubeconfigPath list" where
  "pathsOfKind k ps = filter (\<lambda>p. Store p = k) ps"

text \<open>A list without the later repetitions of its elements: the order of first occurrence.\<close>

fun firstOccurrences :: "'a list \<Rightarrow> 'a list" where
  "firstOccurrences [] = []"
| "firstOccurrences (x # xs) = x # filter (\<lambda>y. y \<noteq> x) (firstOccurrences xs)"

text \<open>An entry whose kind one of the two \<open>case\<close> clauses of the loop accepts.\<close>

definition knownKind :: "KubeconfigPath \<Rightarrow> bool" where
  "knownKind p \<longleftrightarrow> Store p = StoreKindFilesystem \<or> Store p = StoreKindVault"

text \<open>
  Two invariants of the loop. The first relates the two flags to the stores appended so far
  and holds as long as the loop has not returned; the second is its weakening that also
  holds in the state the loop returns an error from.
\<close>

definition loopInvariant :: "LoopVars \<Rightarrow> bool" where
  "loopInvariant vars \<longleftrightarrow>
     (useFilesystemStore vars \<longleftrightarrow> StoreKindFilesystem \<in> kindOfStore ` set (stores vars)) \<and>
     (useVaultStore vars \<longleftrightarrow> StoreKindVault \<in> kindOfStore ` set (stores vars)) \<and>
     distinct (map kindOfStore (stores vars))"

definition constructedOnce :: "LoopVars \<Rightarrow> bool" where
  "constructedOnce vars \<longleftrightarrow>
     (StoreKindFilesystem \<in> kindOfStore ` set (stores vars) \<longrightarrow> useFilesystemStore vars) \<and>
     (StoreKindVault \<in> kindOfStore ` set (stores vars) \<longrightarrow> useVaultStore vars) \<and>
     distinct (map kindOfStore (stores vars))"

section \<open>Concrete runs\<close>

text \<open>
  A machine with home directory \<open>/home/op\<close>: the environment variables given as a list of
  pairs, the result of reading \<open>/home/op/.vault-token\<close>, and a configuration file with the
  given entries and Vault address. \<open>vaultapi.NewClient\<close> succeeds.
\<close>

definition exampleWorld ::
  "(string \<times> string) list \<Rightarrow> string option \<times> error option \<Rightarrow> KubeconfigPath list \<Rightarrow> string
   \<Rightarrow> World" where
  "exampleWorld env tokenFile paths address =
     \<lparr>Getenv = (\<lambda>name. case map_of env name of None \<Rightarrow> [] | Some v \<Rightarrow> v),
      UserHomeDir = Inr ''/home/op'',
      ReadFile = (\<lambda>file. if file = ''/home/op/.vault-token'' then tokenFile
                          else (None, Some (External ''no such file''))),
      LoadConfigFromFile =
        (\<lambda>file. Inr (Some \<lparr>KubeconfigPaths = paths, VaultAPIAddress = address\<rparr>)),
      NewClientFails = (\<lambda>config. None)\<rparr>"

text \<open>Flag values: \<open>--kubeconfig-path\<close>, \<open>--store\<close>, \<open>--vault-api-address\<close>; the rest fixed.\<close>

definition exampleFlags :: "string \<Rightarrow> string \<Rightarrow> string \<Rightarrow> Flags" where
  "exampleFlags path backend address =
     \<lparr>kubeconfigPath = path, kubeconfigName = ''config'', showPreview = True,
      storageBackend = backend, vaultAPIAddressFromFlag = address,
      configPath = ''/home/op/.kube/switch-config.yaml'',
      stateDirectory = ''/home/op/.kube/switch-state'',
      hookName = [], runImmediately = True\<rparr>"

definition fsEntry :: KubeconfigPath where
  "fsEntry = \<lparr>Path = ''/home/op/.kube'', Store = ''filesystem''\<rparr>"

definition fsEntry2 :: KubeconfigPath where
  "fsEntry2 = \<lparr>Path = ''/srv/kubeconfigs'', Store = ''filesystem''\<rparr>"

definition vaultEntry :: KubeconfigPath where
  "vaultEntry = \<lparr>Path = ''secret/kube'', Store = ''vault''\<rparr>"

definition unknownEntry :: KubeconfigPath where
  "unknownEntry = \<lparr>Path = ''bucket/kube'', Store = ''s3''\<rparr>"

definition extraEntry :: KubeconfigPath where
  "extraEntry = \<lparr>Path = ''/extra'', Store = ''filesystem''\<rparr>"

text \<open>The stores and the call the command is expected to build on that machine.\<close>

definition vaultStoreWith :: "KubeconfigPath list \<Rightarrow> string \<Rightarrow> string \<Rightarrow> VaultStore" where
  "vaultStoreWith paths address token =
     \<lparr>vsLogger = WithField ''store'' ''vault'', vsKubeconfigName = ''config'',
      vsKubeconfigPaths = paths,
      vsClient = \<lparr>clientConfig = \<lparr>Address = address\<rparr>, clientToken = token\<rparr>\<rparr>"

definition filesystemStoreWith :: "KubeconfigPath list \<Rightarrow> FilesystemStore" where
  "filesystemStoreWith paths =
     \<lparr>fsLogger = WithField ''store'' ''filesystem'', fsKubeconfigPaths = paths,
      fsKubeconfigName = ''config''\<rparr>"

definition switcherCallWith ::
  "KubeconfigStore list \<Rightarrow> KubeconfigPath list \<Rightarrow> string \<Rightarrow> SwitcherCall" where
  "switcherCallWith sts paths address =
     \<lparr>swStores = sts, swConfig = \<lparr>KubeconfigPaths = paths, VaultAPIAddress = address\<rparr>,
      swConfigPath = ''/home/op/.kube/switch-config.yaml'',
      swStateDirectory = ''/home/op/.kube/switch-state'', swShowPreview = True\<rparr>"

text \<open>
  A run with entries of both kinds, repeated, and a \<open>--kubeconfig-path\<close> entry: the Vault
  address comes from the file, the token from \<open>VAULT_TOKEN\<close>.
\<close>

definition mixedPaths :: "KubeconfigPath list" where
  "mixedPaths = [vaultEntry, fsEntry, vaultEntry, fsEntry2]"

definition mixedWorld :: World where
  "mixedWorld = exampleWorld [(''VAULT_TOKEN'', ''env-token'')] (Some ''file-token'', None)
                  mixedPaths ''https://file.example''"

definition mixedFlags :: Flags where
  "mixedFlags = exampleFlags ''/extra'' ''filesystem'' []"

definition mixedCall :: SwitcherCall where
  "mixedCall = switcherCallWith
     [VaultStoreOf (vaultStoreWith (mixedPaths @ [extraEntry]) ''https://file.example'' ''env-token''),
      FilesystemStoreOf (filesystemStoreWith (mixedPaths @ [extraEntry]))]
     (mixedPaths @ [extraEntry]) ''https://file.example''"

text \<open>
  A run with one entry of each kind and an empty \<open>--kubeconfig-path\<close>: the token comes from
  the token file.
\<close>

definition plainWorld :: World where
  "plainWorld = exampleWorld [] (Some ''file-token'', None) [fsEntry, vaultEntry]
                  ''https://file.example''"

definition plainFlags :: Flags where
  "plainFlags = exampleFlags [] ''filesystem'' []"

definition plainCall :: SwitcherCall where
  "plainCall = switcherCallWith
     [FilesystemStoreOf (filesystemStoreWith [fsEntry, vaultEntry]),
      VaultStoreOf (vaultStoreWith [fsEntry, vaultEntry] ''https://file.example'' ''file-token'')]
     [fsEntry, vaultEntry] ''https://file.example''"

text \<open>
  Two machines on which no Vault address is configured anywhere and the configuration file
  holds a Vault entry and an entry of an unknown kind, in either order.
\<close>

definition vaultThenUnknownWorld :: World where
  "vaultThenUnknownWorld =
     exampleWorld [] (Some ''file-token'', None) [vaultEntry, unknownEntry] []"

definition unknownThenVaultWorld :: World where
  "unknownThenVaultWorld =
     exampleWorld [] (Some ''file-token'', None) [unknownEntry, vaultEntry] []"

section \<open>Evaluation rules\<close>

lemmas example_defs =
  exampleWorld_def exampleFlags_def fsEntry_def fsEntry2_def vaultEntry_def unknownEntry_def
  extraEntry_def vaultStoreWith_def filesystemStoreWith_def switcherCallWith_def
  mixedPaths_def mixedWorld_def mixedFlags_def mixedCall_def
  plainWorld_def plainFlags_def plainCall_def
  vaultThenUnknownWorld_def unknownThenVaultWorld_def
  StoreKindFilesystem_def StoreKindVault_def

lemmas run_defs =
  rootCommand_RunE_def appendKubeconfigPathFlag_def loadedConfig_def initialLoopVars_def
  getVaultStore_def vaultAPI_def vaultToken_def vaultTokenFileName_def Let_def

section \<open>Facts about the loop\<close>

lemma kinds_differ: "StoreKindFilesystem \<noteq> StoreKindVault"
  by (simp add: StoreKindFilesystem_def StoreKindVault_def)

lemma firstOccurrences_set: "set (firstOccurrences xs) = set xs"
  by (induction xs) auto

lemma firstOccurrences_distinct: "distinct (firstOccurrences xs)"
  by (induction xs) (auto simp: firstOccurrences_set)

lemma firstOccurrences_length: "length (firstOccurrences xs) = card (set xs)"
  by (metis distinct_card firstOccurrences_distinct firstOccurrences_set)

lemma distinct_kinds_count:
  "distinct (map f xs) \<Longrightarrow>
   length (filter (\<lambda>s. f s = k) xs) = (if k \<in> f ` set xs then 1 else 0)"
  by (induction xs) auto

lemma initialLoopVars_invariant: "loopInvariant initialLoopVars"
  by (simp add: loopInvariant_def initialLoopVars_def)

text \<open>
  A loop that runs to its end keeps the invariant and appends, in the order of their first
  occurrence, one store for each kind of the remaining entries that has no store yet.
\<close>

lemma storesLoop_kinds:
  assumes "loopInvariant vars"
    and "storesLoop w fl cfg ps vars = (vars', None)"
  shows "loopInvariant vars' \<and>
         map kindOfStore (stores vars') =
           map kindOfStore (stores vars) @
           filter (\<lambda>k. k \<notin> kindOfStore ` set (stores vars)) (firstOccurrences (map Store ps))"
  using assms
proof (induction ps arbitrary: vars)
  case Nil
  then show ?case by simp
next
  case (Cons p ps)
  show ?case
  proof (cases "Store p = StoreKindFilesystem")
    case fs: True
    show ?thesis
    proof (cases "useFilesystemStore vars")
      case True
      with fs Cons.prems have run: "storesLoop w fl cfg ps vars = (vars', None)" by simp
      from True Cons.prems(1) have mem: "StoreKindFilesystem \<in> kindOfStore ` set (stores vars)"
        by (simp add: loopInvariant_def)
      have "filter (\<lambda>k. k \<notin> kindOfStore ` set (stores vars))
              (filter (\<lambda>y. y \<noteq> StoreKindFilesystem) (firstOccurrences (map Store ps))) =
            filter (\<lambda>k. k \<notin> kindOfStore ` set (stores vars)) (firstOccurrences (map Store ps))"
        using mem by (auto intro!: filter_cong)
      with Cons.IH[OF Cons.prems(1) run] fs mem show ?thesis by simp
    next
      case False
      let ?s = "FilesystemStoreOf \<lparr>fsLogger = WithField ''store'' StoreKindFilesystem,
                     fsKubeconfigPaths = KubeconfigPaths cfg,
                     fsKubeconfigName = kubeconfigName fl\<rparr>"
      let ?v = "vars\<lparr>useFilesystemStore := True, stores := stores vars @ [?s]\<rparr>"
      from False fs Cons.prems have run: "storesLoop w fl cfg ps ?v = (vars', None)" by simp
      from False Cons.prems(1) have nmem: "StoreKindFilesystem \<notin> kindOfStore ` set (stores vars)"
        by (simp add: loopInvariant_def)
      have inv: "loopInvariant ?v"
        using Cons.prems(1) nmem kinds_differ by (auto simp: loopInvariant_def)
      have "filter (\<lambda>k. k \<notin> kindOfStore ` set (stores ?v)) (firstOccurrences (map Store ps)) =
            filter (\<lambda>k. k \<notin> kindOfStore ` set (stores vars))
              (filter (\<lambda>y. y \<noteq> StoreKindFilesystem) (firstOccurrences (map Store ps)))"
        by (auto intro!: filter_cong)
      with Cons.IH[OF inv run] fs nmem show ?thesis by simp
    qed
  next
    case nfs: False
    show ?thesis
    proof (cases "Store p = StoreKindVault")
      case vk: True
      show ?thesis
      proof (cases "useVaultStore vars")
        case True
        with nfs vk Cons.prems have run: "storesLoop w fl cfg ps vars = (vars', None)" by simp
        from True Cons.prems(1) have mem: "StoreKindVault \<in> kindOfStore ` set (stores vars)"
          by (simp add: loopInvariant_def)
        have "filter (\<lambda>k. k \<notin> kindOfStore ` set (stores vars))
                (filter (\<lambda>y. y \<noteq> StoreKindVault) (firstOccurrences (map Store ps))) =
              filter (\<lambda>k. k \<notin> kindOfStore ` set (stores vars)) (firstOccurrences (map Store ps))"
          using mem by (auto intro!: filter_cong)
        with Cons.IH[OF Cons.prems(1) run] vk mem show ?thesis by simp
      next
        case False
        from False nfs vk Cons.prems obtain vs where
          gv: "getVaultStore w fl (VaultAPIAddress cfg) (KubeconfigPaths cfg) = Inr vs"
          by (cases "getVaultStore w fl (VaultAPIAddress cfg) (KubeconfigPaths cfg)") auto
        let ?v = "vars\<lparr>useVaultStore := True, stores := stores vars @ [VaultStoreOf vs]\<rparr>"
        from False nfs vk gv Cons.prems have run: "storesLoop w fl cfg ps ?v = (vars', None)"
          by simp
        from False Cons.prems(1) have nmem: "StoreKindVault \<notin> kindOfStore ` set (stores vars)"
          by (simp add: loopInvariant_def)
        have inv: "loopInvariant ?v"
          using Cons.prems(1) nmem kinds_differ by (auto simp: loopInvariant_def)
        have "filter (\<lambda>k. k \<notin> kindOfStore ` set (stores ?v)) (firstOccurrences (map Store ps)) =
              filter (\<lambda>k. k \<notin> kindOfStore ` set (stores vars))
                (filter (\<lambda>y. y \<noteq> StoreKindVault) (firstOccurrences (map Store ps)))"
          by (auto intro!: filter_cong)
        with Cons.IH[OF inv run] vk nmem show ?thesis by simp
      qed
    next
      case False
      with nfs Cons.prems show ?thesis by (simp add: unknownStore_def)
    qed
  qed
qed

text \<open>However the loop is left, no kind has two stores.\<close>

lemma storesLoop_constructedOnce:
  "constructedOnce vars \<Longrightarrow> storesLoop w fl cfg ps vars = (vars', e) \<Longrightarrow> constructedOnce vars'"
proof (induction w fl cfg ps vars rule: storesLoop.induct)
  case (1 w fl switchConfig vars)
  then show ?case by simp
next
  case (2 w fl switchConfig p rest vars)
  show ?case
  proof (cases "getVaultStore w fl (VaultAPIAddress switchConfig) (KubeconfigPaths switchConfig)")
    case (Inl err)
    with 2 show ?thesis
      using kinds_differ
      by (auto simp: constructedOnce_def split: if_splits)
  next
    case (Inr vs)
    with 2 show ?thesis
      using kinds_differ
      by (auto simp: constructedOnce_def split: if_splits)
  qed
qed

text \<open>Every store the loop appends is given the whole list of the configuration.\<close>

lemma storesLoop_paths:
  "storesLoop w fl cfg ps vars = (vars', e) \<Longrightarrow>
   \<forall>s \<in> set (stores vars). storeKubeconfigPaths s = KubeconfigPaths cfg \<Longrightarrow>
   \<forall>s \<in> set (stores vars'). storeKubeconfigPaths s = KubeconfigPaths cfg"
proof (induction w fl cfg ps vars rule: storesLoop.induct)
  case (1 w fl switchConfig vars)
  then show ?case by simp
next
  case (2 w fl switchConfig p rest vars)
  show ?case
  proof (cases "getVaultStore w fl (VaultAPIAddress switchConfig) (KubeconfigPaths switchConfig)")
    case (Inl err)
    with 2 show ?thesis
      by (auto split: if_splits)
  next
    case (Inr vs)
    then have "vsKubeconfigPaths vs = KubeconfigPaths switchConfig"
      by (auto simp: getVaultStore_def Let_def split: if_splits sum.splits option.splits)
    with Inr 2 show ?thesis
      by (auto split: if_splits)
  qed
qed

text \<open>The error of a loop over a list with an entry of unknown kind.\<close>

lemma storesLoop_unknown:
  "find (\<lambda>p. \<not> knownKind p) ps = Some p \<Longrightarrow>
   snd (storesLoop w fl cfg ps vars) =
     Some (if \<not> useVaultStore vars \<and> StoreKindVault \<in> Store ` set (takeWhile knownKind ps)
           then (case getVaultStore w fl (VaultAPIAddress cfg) (KubeconfigPaths cfg) of
                   Inl err \<Rightarrow> err | Inr vs \<Rightarrow> unknownStore p)
           else unknownStore p)"
proof (induction ps arbitrary: vars)
  case Nil
  then show ?case by simp
next
  case (Cons q ps)
  show ?case
  proof (cases "knownKind q")
    case False
    with Cons.prems show ?thesis
      by (simp add: knownKind_def)
  next
    case True
    with Cons.prems have f: "find (\<lambda>p. \<not> knownKind p) ps = Some p" by simp
    show ?thesis
    proof (cases "Store q = StoreKindFilesystem")
      case fs: True
      then show ?thesis
        using True Cons.IH[OF f] kinds_differ by (simp add: Let_def)
    next
      case False
      with True have v: "Store q = StoreKindVault" by (simp add: knownKind_def)
      show ?thesis
        using True v False Cons.IH[OF f]
        by (simp split: sum.splits)
    qed
  qed
qed

text \<open>The error of a loop that reaches a Vault entry for which no store can be built.\<close>

lemma storesLoop_vault_fails:
  "getVaultStore w fl (VaultAPIAddress cfg) (KubeconfigPaths cfg) = Inl err \<Longrightarrow>
   \<not> useVaultStore vars \<Longrightarrow> StoreKindVault \<in> Store ` set ps \<Longrightarrow>
   snd (storesLoop w fl cfg ps vars) =
     Some (case find (\<lambda>p. \<not> knownKind p) (takeWhile (\<lambda>p. Store p \<noteq> StoreKindVault) ps) of
             None \<Rightarrow> err | Some q \<Rightarrow> unknownStore q)"
proof (induction ps arbitrary: vars)
  case Nil
  then show ?case by simp
next
  case (Cons q ps)
  show ?case
  proof (cases "Store q = StoreKindFilesystem")
    case True
    with Cons.prems kinds_differ have "StoreKindVault \<in> Store ` set ps" by auto
    from Cons.IH[OF Cons.prems(1) _ this] Cons.prems(2) True kinds_differ
    show ?thesis by (simp add: Let_def knownKind_def)
  next
    case nfs: False
    show ?thesis
    proof (cases "Store q = StoreKindVault")
      case True
      with nfs Cons.prems show ?thesis by simp
    next
      case False
      with nfs show ?thesis by (simp add: knownKind_def)
    qed
  qed
qed

text \<open>A run that reaches \<open>pkg.Switcher\<close> passes it the stores of a loop that ran to its end.\<close>

lemma rootCommand_RunE_TailCall:
  assumes "rootCommand_RunE w fl = TailCall c"
  obtains vars where
    "storesLoop w fl (swConfig c) (KubeconfigPaths (swConfig c)) initialLoopVars = (vars, None)"
    and "swStores c = stores vars"
  using assms
  by (auto simp: rootCommand_RunE_def Let_def split: sum.splits prod.splits option.splits)

lemma mixed_run: "rootCommand_RunE mixedWorld mixedFlags = TailCall mixedCall"
  by (simp add: example_defs run_defs)

lemma plain_run: "rootCommand_RunE plainWorld plainFlags = TailCall plainCall"
  by (simp add: example_defs run_defs)

section \<open>Properties of the switch command\<close>

text \<open>
  C1. At most one store is constructed per backend kind. However the loop over the entries
  is left (also with an error), the stores built so far hold at most one store of any kind.
  When the command reaches \<open>pkg.Switcher\<close>, the stores list is as long as the number of
  distinct kinds among the entries, and every entry has exactly one store of its kind in
  it: all entries of a kind share that store.
\<close>

theorem one_store_per_backend_kind:
  "(storesLoop w fl cfg ps initialLoopVars = (vars, e) \<longrightarrow>
      (\<forall>k. length (filter (\<lambda>s. kindOfStore s = k) (stores vars)) \<le> 1)) \<and>
   (rootCommand_RunE w fl = TailCall c \<longrightarrow>
      length (swStores c) = card (Store ` set (KubeconfigPaths (swConfig c))) \<and>
      (\<forall>p \<in> set (KubeconfigPaths (swConfig c)).
         length (filter (\<lambda>s. kindOfStore s = Store p) (swStores c)) = 1))"
proof (intro conjI impI)
  assume run: "storesLoop w fl cfg ps initialLoopVars = (vars, e)"
  have "constructedOnce initialLoopVars"
    by (simp add: constructedOnce_def initialLoopVars_def)
  from storesLoop_constructedOnce[OF this run]
  have "distinct (map kindOfStore (stores vars))"
    by (simp add: constructedOnce_def)
  then show "\<forall>k. length (filter (\<lambda>s. kindOfStore s = k) (stores vars)) \<le> 1"
    by (simp add: distinct_kinds_count)
next
  assume call: "rootCommand_RunE w fl = TailCall c"
  then obtain vars where
    run: "storesLoop w fl (swConfig c) (KubeconfigPaths (swConfig c)) initialLoopVars = (vars, None)"
    and st: "swStores c = stores vars"
    by (rule rootCommand_RunE_TailCall)
  from storesLoop_kinds[OF initialLoopVars_invariant run]
  have kinds: "map kindOfStore (stores vars) =
               firstOccurrences (map Store (KubeconfigPaths (swConfig c)))"
    by (simp add: initialLoopVars_def)
  then have "length (stores vars) =
             length (firstOccurrences (map Store (KubeconfigPaths (swConfig c))))"
    by (metis length_map)
  then show "length (swStores c) = card (Store ` set (KubeconfigPaths (swConfig c)))"
    using st by (simp add: firstOccurrences_length)
  have d: "distinct (map kindOfStore (stores vars))"
    using kinds by (simp add: firstOccurrences_distinct)
  have "kindOfStore ` set (stores vars) = Store ` set (KubeconfigPaths (swConfig c))"
    using kinds by (metis firstOccurrences_set set_map)
  then show "\<forall>p \<in> set (KubeconfigPaths (swConfig c)).
         length (filter (\<lambda>s. kindOfStore s = Store p) (swStores c)) = 1"
    using d st by (simp add: distinct_kinds_count)
qed

text \<open>
  The theorem at two runs: one that reaches \<open>pkg.Switcher\<close> with five entries of two kinds
  and two stores, and a loop that is left with the missing-address error after the
  filesystem store was built.
\<close>

theorem one_store_per_backend_kind_witness:
  "rootCommand_RunE mixedWorld mixedFlags = TailCall mixedCall \<and>
   length (swStores mixedCall) = 2 \<and>
   card (Store ` set (KubeconfigPaths (swConfig mixedCall))) = 2 \<and>
   storesLoop vaultThenUnknownWorld plainFlags
     \<lparr>KubeconfigPaths = [fsEntry, vaultEntry], VaultAPIAddress = []\<rparr>
     [fsEntry, vaultEntry] initialLoopVars =
     (\<lparr>useVaultStore = True, useFilesystemStore = True,
       stores = [FilesystemStoreOf (filesystemStoreWith [fsEntry, vaultEntry])]\<rparr>,
      Some missingVaultAddress) \<and>
   (\<forall>k. length (filter (\<lambda>s. kindOfStore s = k)
                  [FilesystemStoreOf (filesystemStoreWith [fsEntry, vaultEntry])]) \<le> 1)"
proof -
  have run: "rootCommand_RunE mixedWorld mixedFlags = TailCall mixedCall"
    by (simp add: example_defs run_defs)
  have loop: "storesLoop vaultThenUnknownWorld plainFlags
     \<lparr>KubeconfigPaths = [fsEntry, vaultEntry], VaultAPIAddress = []\<rparr>
     [fsEntry, vaultEntry] initialLoopVars =
     (\<lparr>useVaultStore = True, useFilesystemStore = True,
       stores = [FilesystemStoreOf (filesystemStoreWith [fsEntry, vaultEntry])]\<rparr>,
      Some missingVaultAddress)"
    by (simp add: example_defs run_defs)
  have len: "length (swStores mixedCall) = 2"
    by (simp add: example_defs)
  from one_store_per_backend_kind[where w = mixedWorld and fl = mixedFlags and c = mixedCall]
    one_store_per_backend_kind[where
      w = vaultThenUnknownWorld and fl = plainFlags and
      cfg = "\<lparr>KubeconfigPaths = [fsEntry, vaultEntry], VaultAPIAddress = []\<rparr>" and
      ps = "[fsEntry, vaultEntry]" and
      vars = "\<lparr>useVaultStore = True, useFilesystemStore = True,
       stores = [FilesystemStoreOf (filesystemStoreWith [fsEntry, vaultEntry])]\<rparr>" and
      e = "Some missingVaultAddress"]
    run loop len
  show ?thesis by simp
qed

text \<open>
  C2, as stated, fails: with one filesystem entry and one Vault entry configured, both stores
  are given both entries, not only those of their own kind.
\<close>

theorem stores_own_kind_only_counterexample:
  "rootCommand_RunE plainWorld plainFlags = TailCall plainCall \<and>
   swStores plainCall =
     [FilesystemStoreOf (filesystemStoreWith [fsEntry, vaultEntry]),
      VaultStoreOf (vaultStoreWith [fsEntry, vaultEntry] ''https://file.example'' ''file-token'')] \<and>
   KubeconfigPaths (swConfig plainCall) = [fsEntry, vaultEntry] \<and>
   fsKubeconfigPaths (filesystemStoreWith [fsEntry, vaultEntry]) \<noteq>
     pathsOfKind StoreKindFilesystem [fsEntry, vaultEntry] \<and>
   vsKubeconfigPaths (vaultStoreWith [fsEntry, vaultEntry] ''https://file.example'' ''file-token'') \<noteq>
     pathsOfKind StoreKindVault [fsEntry, vaultEntry]"
  by (simp add: example_defs run_defs pathsOfKind_def)

text \<open>
  C2, amended. Every store the command constructs is given the complete list of entries the
  command works on (the entries of the configuration file and the command-line entry), of
  whatever kind; the command does not select the entries of the store's own kind.
\<close>

theorem stores_receive_all_paths:
  "(storesLoop w fl cfg ps initialLoopVars = (vars, e) \<longrightarrow>
      (\<forall>s \<in> set (stores vars). storeKubeconfigPaths s = KubeconfigPaths cfg)) \<and>
   (rootCommand_RunE w fl = TailCall c \<longrightarrow>
      (\<forall>s \<in> set (swStores c). storeKubeconfigPaths s = KubeconfigPaths (swConfig c)))"
proof (intro conjI impI)
  assume "storesLoop w fl cfg ps initialLoopVars = (vars, e)"
  from storesLoop_paths[OF this]
  show "\<forall>s \<in> set (stores vars). storeKubeconfigPaths s = KubeconfigPaths cfg"
    by (simp add: initialLoopVars_def)
next
  assume "rootCommand_RunE w fl = TailCall c"
  then obtain vars where
    run: "storesLoop w fl (swConfig c) (KubeconfigPaths (swConfig c)) initialLoopVars = (vars, None)"
    and st: "swStores c = stores vars"
    by (rule rootCommand_RunE_TailCall)
  from storesLoop_paths[OF run] st
  show "\<forall>s \<in> set (swStores c). storeKubeconfigPaths s = KubeconfigPaths (swConfig c)"
    by (simp add: initialLoopVars_def)
qed

theorem stores_receive_all_paths_witness:
  "rootCommand_RunE mixedWorld mixedFlags = TailCall mixedCall \<and>
   storesLoop mixedWorld mixedFlags (swConfig mixedCall) (KubeconfigPaths (swConfig mixedCall))
     initialLoopVars =
     (\<lparr>useVaultStore = True, useFilesystemStore = True, stores = swStores mixedCall\<rparr>, None) \<and>
   map storeKubeconfigPaths (swStores mixedCall) =
     [[vaultEntry, fsEntry, vaultEntry, fsEntry2, extraEntry],
      [vaultEntry, fsEntry, vaultEntry, fsEntry2, extraEntry]]"
proof -
  have run: "rootCommand_RunE mixedWorld mixedFlags = TailCall mixedCall"
    by (simp add: example_defs run_defs)
  have loop: "storesLoop mixedWorld mixedFlags (swConfig mixedCall)
     (KubeconfigPaths (swConfig mixedCall)) initialLoopVars =
     (\<lparr>useVaultStore = True, useFilesystemStore = True, stores = swStores mixedCall\<rparr>, None)"
    by (simp add: example_defs run_defs)
  have paths: "KubeconfigPaths (swConfig mixedCall) =
               [vaultEntry, fsEntry, vaultEntry, fsEntry2, extraEntry]"
    by (simp add: mixedCall_def mixedPaths_def switcherCallWith_def)
  have sts: "swStores mixedCall =
      [VaultStoreOf (vaultStoreWith (mixedPaths @ [extraEntry]) ''https://file.example'' ''env-token''),
       FilesystemStoreOf (filesystemStoreWith (mixedPaths @ [extraEntry]))]"
    by (simp add: mixedCall_def switcherCallWith_def)
  from stores_receive_all_paths[where w = mixedWorld and fl = mixedFlags and c = mixedCall
      and cfg = "swConfig mixedCall" and ps = "KubeconfigPaths (swConfig mixedCall)"
      and vars = "\<lparr>useVaultStore = True, useFilesystemStore = True, stores = swStores mixedCall\<rparr>"
      and e = None] run loop paths sts
  show ?thesis by simp
qed

text \<open>
  C3, as stated, fails: with \<open>--vault-api-address\<close> and \<open>VAULT_ADDR\<close> both set, the client
  is configured with the address of the environment variable, not with the flag's.
\<close>

theorem vault_address_flag_first_counterexample:
  "vaultAPIAddressFromFlag (exampleFlags [] ''filesystem'' ''https://flag.example'') =
     ''https://flag.example'' \<and>
   getVaultStore
     (exampleWorld [(''VAULT_ADDR'', ''https://env.example'')] (Some ''file-token'', None) [] [])
     (exampleFlags [] ''filesystem'' ''https://flag.example'')
     ''https://file.example'' [vaultEntry] =
     Inr (vaultStoreWith [vaultEntry] ''https://env.example'' ''file-token'') \<and>
   Address (clientConfig (vsClient
     (vaultStoreWith [vaultEntry] ''https://env.example'' ''file-token''))) \<noteq>
     ''https://flag.example''"
  by (simp add: example_defs run_defs)

text \<open>
  C3, amended. The Vault API address is resolved by the precedence chain environment
  variable > flag > configured file value: a store that \<open>getVaultStore\<close> returns has a
  client configured with \<open>VAULT_ADDR\<close> whenever that is non-empty, else with the
  \<open>--vault-api-address\<close> flag value when that is non-empty, else with the address of the
  configuration file. Such a store is returned whenever the address so resolved is non-empty,
  the home directory is known, a token is found and the client can be created.
\<close>

theorem vault_address_precedence:
  "(getVaultStore w fl fileAddress paths = Inr vs \<longrightarrow>
      Address (clientConfig (vsClient vs)) =
        (if Getenv w ''VAULT_ADDR'' \<noteq> [] then Getenv w ''VAULT_ADDR''
         else if vaultAPIAddressFromFlag fl \<noteq> [] then vaultAPIAddressFromFlag fl
         else fileAddress)) \<and>
   ((if Getenv w ''VAULT_ADDR'' \<noteq> [] then Getenv w ''VAULT_ADDR''
     else if vaultAPIAddressFromFlag fl \<noteq> [] then vaultAPIAddressFromFlag fl
     else fileAddress) = address \<and>
    address \<noteq> [] \<and> UserHomeDir w = Inr home \<and> vaultToken w home \<noteq> [] \<and>
    NewClientFails w \<lparr>Address = address\<rparr> = None \<longrightarrow>
      (\<exists>store. getVaultStore w fl fileAddress paths = Inr store))"
  by (auto simp: getVaultStore_def vaultAPI_def Let_def split: if_splits sum.splits option.splits)

text \<open>
  The theorem at three runs: all three sources set, only flag and file set, only the file
  set.
\<close>

theorem vault_address_precedence_witness:
  "getVaultStore
     (exampleWorld [(''VAULT_ADDR'', ''https://env.example'')] (Some ''file-token'', None) [] [])
     (exampleFlags [] ''filesystem'' ''https://flag.example'')
     ''https://file.example'' [vaultEntry] =
     Inr (vaultStoreWith [vaultEntry] ''https://env.example'' ''file-token'') \<and>
   getVaultStore
     (exampleWorld [] (Some ''file-token'', None) [] [])
     (exampleFlags [] ''filesystem'' ''https://flag.example'')
     ''https://file.example'' [vaultEntry] =
     Inr (vaultStoreWith [vaultEntry] ''https://flag.example'' ''file-token'') \<and>
   getVaultStore
     (exampleWorld [] (Some ''file-token'', None) [] [])
     (exampleFlags [] ''filesystem'' [])
     ''https://file.example'' [vaultEntry] =
     Inr (vaultStoreWith [vaultEntry] ''https://file.example'' ''file-token'')"
proof -
  let ?envWorld =
    "exampleWorld [(''VAULT_ADDR'', ''https://env.example'')] (Some ''file-token'', None) [] []"
  let ?world = "exampleWorld [] (Some ''file-token'', None) [] []"
  let ?flag = "exampleFlags [] ''filesystem'' ''https://flag.example''"
  let ?noFlag = "exampleFlags [] ''filesystem'' []"
  have home: "UserHomeDir ?envWorld = Inr ''/home/op''" "UserHomeDir ?world = Inr ''/home/op''"
    by (simp_all add: exampleWorld_def)
  have token: "vaultToken ?envWorld ''/home/op'' = ''file-token''"
    "vaultToken ?world ''/home/op'' = ''file-token''"
    by (simp_all add: exampleWorld_def vaultToken_def vaultTokenFileName_def)
  have env: "Getenv ?envWorld ''VAULT_ADDR'' = ''https://env.example''"
    "Getenv ?world ''VAULT_ADDR'' = []"
    by (simp_all add: exampleWorld_def)
  have client: "NewClientFails ?envWorld \<lparr>Address = ''https://env.example''\<rparr> = None"
    "NewClientFails ?world \<lparr>Address = ''https://flag.example''\<rparr> = None"
    "NewClientFails ?world \<lparr>Address = ''https://file.example''\<rparr> = None"
    by (simp_all add: exampleWorld_def)
  have flag: "vaultAPIAddressFromFlag ?flag = ''https://flag.example''"
    "vaultAPIAddressFromFlag ?noFlag = []"
    by (simp_all add: exampleFlags_def)
  have r1: "getVaultStore ?envWorld ?flag ''https://file.example'' [vaultEntry] =
      Inr (vaultStoreWith [vaultEntry] ''https://env.example'' ''file-token'')"
    by (simp add: example_defs run_defs)
  have r2: "getVaultStore ?world ?flag ''https://file.example'' [vaultEntry] =
      Inr (vaultStoreWith [vaultEntry] ''https://flag.example'' ''file-token'')"
    by (simp add: example_defs run_defs)
  have r3: "getVaultStore ?world ?noFlag ''https://file.example'' [vaultEntry] =
      Inr (vaultStoreWith [vaultEntry] ''https://file.example'' ''file-token'')"
    by (simp add: example_defs run_defs)
  from vault_address_precedence[where w = ?envWorld and fl = ?flag
      and fileAddress = "''https://file.example''" and paths = "[vaultEntry]"
      and vs = "vaultStoreWith [vaultEntry] ''https://env.example'' ''file-token''"
      and address = "''https://env.example''" and home = "''/home/op''"]
    vault_address_precedence[where w = ?world and fl = ?flag
      and fileAddress = "''https://file.example''" and paths = "[vaultEntry]"
      and vs = "vaultStoreWith [vaultEntry] ''https://flag.example'' ''file-token''"
      and address = "''https://flag.example''" and home = "''/home/op''"]
    vault_address_precedence[where w = ?world and fl = ?noFlag
      and fileAddress = "''https://file.example''" and paths = "[vaultEntry]"
      and vs = "vaultStoreWith [vaultEntry] ''https://file.example'' ''file-token''"
      and address = "''https://file.example''" and home = "''/home/op''"]
    r1 r2 r3
  show ?thesis by simp
qed

text \<open>
  C4. The Vault token is resolved with the environment variable before the token file in
  the home directory. In a run of \<open>getVaultStore\<close> that has the home directory and reads the
  file \<open>.vault-token\<close> in it: a store returned while \<open>VAULT_TOKEN\<close> is non-empty has a client
  with that token, whatever the file holds; a store returned while \<open>VAULT_TOKEN\<close> is empty
  has a client with the bytes of the file; when \<open>VAULT_TOKEN\<close> is empty and the file gives
  no bytes or none at all, an error is returned and no store, and that error is the
  missing-token error once the address is resolved; and when the address is resolved, the
  client can be created and one of the two sources gives a token, a store is returned.
\<close>

theorem vault_token_precedence:
  assumes "UserHomeDir w = Inr home"
    and "ReadFile w (home @ ''/.vault-token'') = (tokenBytes, readError)"
  shows "(Getenv w ''VAULT_TOKEN'' \<noteq> [] \<and> getVaultStore w fl fileAddress paths = Inr vs \<longrightarrow>
            clientToken (vsClient vs) = Getenv w ''VAULT_TOKEN'') \<and>
         (Getenv w ''VAULT_TOKEN'' = [] \<and> getVaultStore w fl fileAddress paths = Inr vs \<longrightarrow>
            tokenBytes = Some (clientToken (vsClient vs))) \<and>
         (Getenv w ''VAULT_TOKEN'' = [] \<and> (tokenBytes = None \<or> tokenBytes = Some []) \<longrightarrow>
            (\<exists>err. getVaultStore w fl fileAddress paths = Inl err) \<and>
            (vaultAPI w fl fileAddress \<noteq> [] \<longrightarrow>
               getVaultStore w fl fileAddress paths = Inl missingVaultToken)) \<and>
         (vaultAPI w fl fileAddress \<noteq> [] \<and>
          NewClientFails w \<lparr>Address = vaultAPI w fl fileAddress\<rparr> = None \<and>
          (Getenv w ''VAULT_TOKEN'' \<noteq> [] \<or> (\<exists>bs. tokenBytes = Some bs \<and> bs \<noteq> [])) \<longrightarrow>
            (\<exists>store. getVaultStore w fl fileAddress paths = Inr store))"
  using assms
  by (auto simp: getVaultStore_def vaultToken_def vaultTokenFileName_def Let_def
           split: if_splits sum.splits option.splits)

text \<open>
  The theorem at three runs with the address taken from the file: \<open>VAULT_TOKEN\<close> and the
  token file both present, only the token file present, and neither (the file is empty).
\<close>

theorem vault_token_precedence_witness:
  "getVaultStore
     (exampleWorld [(''VAULT_TOKEN'', ''env-token'')] (Some ''file-token'', None) [] [])
     (exampleFlags [] ''filesystem'' []) ''https://file.example'' [vaultEntry] =
     Inr (vaultStoreWith [vaultEntry] ''https://file.example'' ''env-token'') \<and>
   getVaultStore
     (exampleWorld [] (Some ''file-token'', None) [] [])
     (exampleFlags [] ''filesystem'' []) ''https://file.example'' [vaultEntry] =
     Inr (vaultStoreWith [vaultEntry] ''https://file.example'' ''file-token'') \<and>
   getVaultStore
     (exampleWorld [] (Some [], None) [] [])
     (exampleFlags [] ''filesystem'' []) ''https://file.example'' [vaultEntry] =
     Inl missingVaultToken"
proof -
  let ?both = "exampleWorld [(''VAULT_TOKEN'', ''env-token'')] (Some ''file-token'', None) [] []"
  let ?file = "exampleWorld [] (Some ''file-token'', None) [] []"
  let ?none = "exampleWorld [] (Some [], None) [] []"
  let ?flags = "exampleFlags [] ''filesystem'' []"
  have home: "UserHomeDir ?both = Inr ''/home/op''" "UserHomeDir ?file = Inr ''/home/op''"
    "UserHomeDir ?none = Inr ''/home/op''"
    by (simp_all add: exampleWorld_def)
  have read: "ReadFile ?both (''/home/op'' @ ''/.vault-token'') = (Some ''file-token'', None)"
    "ReadFile ?file (''/home/op'' @ ''/.vault-token'') = (Some ''file-token'', None)"
    "ReadFile ?none (''/home/op'' @ ''/.vault-token'') = (Some [], None)"
    by (simp_all add: exampleWorld_def)
  have env: "Getenv ?both ''VAULT_TOKEN'' = ''env-token''" "Getenv ?file ''VAULT_TOKEN'' = []"
    "Getenv ?none ''VAULT_TOKEN'' = []"
    by (simp_all add: exampleWorld_def)
  have api: "vaultAPI ?both ?flags ''https://file.example'' = ''https://file.example''"
    "vaultAPI ?file ?flags ''https://file.example'' = ''https://file.example''"
    "vaultAPI ?none ?flags ''https://file.example'' = ''https://file.example''"
    by (simp_all add: exampleWorld_def exampleFlags_def vaultAPI_def)
  have client: "NewClientFails ?both \<lparr>Address = ''https://file.example''\<rparr> = None"
    "NewClientFails ?file \<lparr>Address = ''https://file.example''\<rparr> = None"
    by (simp_all add: exampleWorld_def)
  have r1: "getVaultStore ?both ?flags ''https://file.example'' [vaultEntry] =
      Inr (vaultStoreWith [vaultEntry] ''https://file.example'' ''env-token'')"
    by (simp add: example_defs run_defs)
  have r2: "getVaultStore ?file ?flags ''https://file.example'' [vaultEntry] =
      Inr (vaultStoreWith [vaultEntry] ''https://file.example'' ''file-token'')"
    by (simp add: example_defs run_defs)
  from vault_token_precedence[OF home(3) read(3), where fl = ?flags
      and fileAddress = "''https://file.example''" and paths = "[vaultEntry]"] env(3) api(3)
  have r3: "getVaultStore ?none ?flags ''https://file.example'' [vaultEntry] =
      Inl missingVaultToken"
    by simp
  from vault_token_precedence[OF home(1) read(1), where fl = ?flags
      and fileAddress = "''https://file.example''" and paths = "[vaultEntry]"
      and vs = "vaultStoreWith [vaultEntry] ''https://file.example'' ''env-token''"]
    vault_token_precedence[OF home(2) read(2), where fl = ?flags
      and fileAddress = "''https://file.example''" and paths = "[vaultEntry]"
      and vs = "vaultStoreWith [vaultEntry] ''https://file.example'' ''file-token''"]
    r1 r2 r3
  show ?thesis by simp
qed

text \<open>
  C5, as stated, fails: with a Vault entry before an entry of the unknown kind \<open>s3\<close> and no
  Vault address configured, the command fails with the missing-address error of
  \<open>getVaultStore\<close>, which does not name the unknown store.
\<close>

theorem unknown_store_named_counterexample:
  "LoadConfigFromFile vaultThenUnknownWorld (configPath plainFlags) =
     Inr (Some \<lparr>KubeconfigPaths = [vaultEntry, unknownEntry], VaultAPIAddress = []\<rparr>) \<and>
   \<not> knownKind unknownEntry \<and>
   rootCommand_RunE vaultThenUnknownWorld plainFlags = Return missingVaultAddress \<and>
   missingVaultAddress \<noteq> unknownStore unknownEntry"
  by (simp add: example_defs run_defs knownKind_def unknownStore_def missingVaultAddress_def)

text \<open>
  C5, amended. If an entry of the list the command works on names a backend kind that is
  neither Filesystem nor Vault, the command returns an error and does not call
  \<open>pkg.Switcher\<close>. The error is \<open>unknown store %q\<close> with the kind of the first such entry,
  unless a Vault entry comes before that entry and \<open>getVaultStore\<close> fails: then the error
  is the one \<open>getVaultStore\<close> returned.
\<close>

theorem unknown_store_kind_fails:
  assumes "LoadConfigFromFile w (configPath fl) = Inr loaded"
    and "switchConfig = appendKubeconfigPathFlag fl (loadedConfig loaded)"
    and "find (\<lambda>p. \<not> knownKind p) (KubeconfigPaths switchConfig) = Some p"
  shows "rootCommand_RunE w fl =
     Return (if StoreKindVault \<in> Store ` set (takeWhile knownKind (KubeconfigPaths switchConfig))
             then (case getVaultStore w fl (VaultAPIAddress switchConfig)
                          (KubeconfigPaths switchConfig) of
                     Inl err \<Rightarrow> err | Inr vs \<Rightarrow> unknownStore p)
             else unknownStore p)"
proof -
  from storesLoop_unknown[OF assms(3), of w fl switchConfig initialLoopVars]
  obtain vars where
    "storesLoop w fl switchConfig (KubeconfigPaths switchConfig) initialLoopVars =
     (vars,
      Some (if StoreKindVault \<in> Store ` set (takeWhile knownKind (KubeconfigPaths switchConfig))
            then (case getVaultStore w fl (VaultAPIAddress switchConfig)
                         (KubeconfigPaths switchConfig) of
                    Inl err \<Rightarrow> err | Inr vs \<Rightarrow> unknownStore p)
            else unknownStore p))"
    by (cases "storesLoop w fl switchConfig (KubeconfigPaths switchConfig) initialLoopVars")
       (simp add: initialLoopVars_def)
  then show ?thesis
    using assms(1,2) by (simp add: rootCommand_RunE_def Let_def)
qed

text \<open>
  The theorem at three runs: the unknown entry first, the unknown entry after a Vault entry
  whose store is built, and the unknown entry after a Vault entry whose store cannot be
  built.
\<close>

theorem unknown_store_kind_fails_witness:
  "rootCommand_RunE unknownThenVaultWorld plainFlags = Return (unknownStore unknownEntry) \<and>
   rootCommand_RunE
     (exampleWorld [] (Some ''file-token'', None) [vaultEntry, unknownEntry] ''https://file.example'')
     plainFlags = Return (unknownStore unknownEntry) \<and>
   rootCommand_RunE vaultThenUnknownWorld plainFlags = Return missingVaultAddress"
proof -
  let ?okWorld =
    "exampleWorld [] (Some ''file-token'', None) [vaultEntry, unknownEntry] ''https://file.example''"
  have load: "LoadConfigFromFile unknownThenVaultWorld (configPath plainFlags) =
      Inr (Some \<lparr>KubeconfigPaths = [unknownEntry, vaultEntry], VaultAPIAddress = []\<rparr>)"
    "LoadConfigFromFile ?okWorld (configPath plainFlags) =
      Inr (Some \<lparr>KubeconfigPaths = [vaultEntry, unknownEntry],
                 VaultAPIAddress = ''https://file.example''\<rparr>)"
    "LoadConfigFromFile vaultThenUnknownWorld (configPath plainFlags) =
      Inr (Some \<lparr>KubeconfigPaths = [vaultEntry, unknownEntry], VaultAPIAddress = []\<rparr>)"
    by (simp_all add: exampleWorld_def unknownThenVaultWorld_def vaultThenUnknownWorld_def)
  have cfg: "\<lparr>KubeconfigPaths = [unknownEntry, vaultEntry], VaultAPIAddress = []\<rparr> =
      appendKubeconfigPathFlag plainFlags (loadedConfig
        (Some \<lparr>KubeconfigPaths = [unknownEntry, vaultEntry], VaultAPIAddress = []\<rparr>))"
    "\<lparr>KubeconfigPaths = [vaultEntry, unknownEntry], VaultAPIAddress = ''https://file.example''\<rparr> =
      appendKubeconfigPathFlag plainFlags (loadedConfig
        (Some \<lparr>KubeconfigPaths = [vaultEntry, unknownEntry],
               VaultAPIAddress = ''https://file.example''\<rparr>))"
    "\<lparr>KubeconfigPaths = [vaultEntry, unknownEntry], VaultAPIAddress = []\<rparr> =
      appendKubeconfigPathFlag plainFlags (loadedConfig
        (Some \<lparr>KubeconfigPaths = [vaultEntry, unknownEntry], VaultAPIAddress = []\<rparr>))"
    by (simp_all add: appendKubeconfigPathFlag_def loadedConfig_def plainFlags_def exampleFlags_def)
  have first: "find (\<lambda>p. \<not> knownKind p)
        (KubeconfigPaths \<lparr>KubeconfigPaths = [unknownEntry, vaultEntry], VaultAPIAddress = []\<rparr>) =
      Some unknownEntry"
    "find (\<lambda>p. \<not> knownKind p)
        (KubeconfigPaths \<lparr>KubeconfigPaths = [vaultEntry, unknownEntry],
                          VaultAPIAddress = ''https://file.example''\<rparr>) =
      Some unknownEntry"
    "find (\<lambda>p. \<not> knownKind p)
        (KubeconfigPaths \<lparr>KubeconfigPaths = [vaultEntry, unknownEntry], VaultAPIAddress = []\<rparr>) =
      Some unknownEntry"
    by (simp_all add: knownKind_def example_defs)
  have r1: "rootCommand_RunE unknownThenVaultWorld plainFlags = Return (unknownStore unknownEntry)"
    using unknown_store_kind_fails[OF load(1) cfg(1) first(1)]
    by (simp add: knownKind_def example_defs)
  have r2: "rootCommand_RunE ?okWorld plainFlags = Return (unknownStore unknownEntry)"
    using unknown_store_kind_fails[OF load(2) cfg(2) first(2)]
    by (simp add: knownKind_def example_defs run_defs)
  have r3: "rootCommand_RunE vaultThenUnknownWorld plainFlags = Return missingVaultAddress"
    using unknown_store_kind_fails[OF load(3) cfg(3) first(3)]
    by (simp add: knownKind_def example_defs run_defs)
  from r1 r2 r3 show ?thesis by simp
qed

text \<open>
  C6, as stated, fails: with an entry of the unknown kind \<open>s3\<close> before a Vault entry and no
  Vault address configured, the command fails with the unknown-store error, whose message
  names no source of the address.
\<close>

theorem missing_vault_address_named_counterexample:
  "LoadConfigFromFile unknownThenVaultWorld (configPath plainFlags) =
     Inr (Some \<lparr>KubeconfigPaths = [unknownEntry, vaultEntry], VaultAPIAddress = []\<rparr>) \<and>
   Store vaultEntry = StoreKindVault \<and>
   vaultAPI unknownThenVaultWorld plainFlags [] = [] \<and>
   rootCommand_RunE unknownThenVaultWorld plainFlags = Return (unknownStore unknownEntry) \<and>
   unknownStore unknownEntry \<noteq> missingVaultAddress"
  by (simp add: example_defs run_defs unknownStore_def missingVaultAddress_def)

text \<open>
  C6, amended. When a Vault entry is in the list the command works on and no Vault API
  address is resolved from flag, environment or configuration file, the command returns an
  error and does not call \<open>pkg.Switcher\<close>. The error is the missing-address error, whose
  message names the command line argument, the environment variable \<open>VAULT_ADDR\<close> and the
  SwitchConfig file, unless an entry of unknown kind comes before the first Vault entry:
  then the error is the unknown-store error of the first such entry.
\<close>

theorem missing_vault_address_fails:
  assumes "LoadConfigFromFile w (configPath fl) = Inr loaded"
    and "switchConfig = appendKubeconfigPathFlag fl (loadedConfig loaded)"
    and "StoreKindVault \<in> Store ` set (KubeconfigPaths switchConfig)"
    and "vaultAPI w fl (VaultAPIAddress switchConfig) = []"
  shows "rootCommand_RunE w fl =
     Return (case find (\<lambda>p. \<not> knownKind p)
                    (takeWhile (\<lambda>p. Store p \<noteq> StoreKindVault) (KubeconfigPaths switchConfig)) of
               None \<Rightarrow> missingVaultAddress | Some q \<Rightarrow> unknownStore q) \<and>
   missingVaultAddress = Errorf
     (''when using the vault kubeconfig store, the API address of the vault has to be provided either by ''
      @ ''command line argument \"vaultAPI\"'' @ '', via ''
      @ ''environment variable \"VAULT_ADDR\"'' @ '' or via '' @ ''SwitchConfig file'') []"
proof
  have gv: "getVaultStore w fl (VaultAPIAddress switchConfig) (KubeconfigPaths switchConfig) =
            Inl missingVaultAddress"
    using assms(4) by (simp add: getVaultStore_def)
  from storesLoop_vault_fails[OF gv _ assms(3), of initialLoopVars]
  obtain vars where
    "storesLoop w fl switchConfig (KubeconfigPaths switchConfig) initialLoopVars =
     (vars,
      Some (case find (\<lambda>p. \<not> knownKind p)
                   (takeWhile (\<lambda>p. Store p \<noteq> StoreKindVault) (KubeconfigPaths switchConfig)) of
              None \<Rightarrow> missingVaultAddress | Some q \<Rightarrow> unknownStore q))"
    by (cases "storesLoop w fl switchConfig (KubeconfigPaths switchConfig) initialLoopVars")
       (simp add: initialLoopVars_def)
  then show "rootCommand_RunE w fl =
     Return (case find (\<lambda>p. \<not> knownKind p)
                    (takeWhile (\<lambda>p. Store p \<noteq> StoreKindVault) (KubeconfigPaths switchConfig)) of
               None \<Rightarrow> missingVaultAddress | Some q \<Rightarrow> unknownStore q)"
    using assms(1,2) by (simp add: rootCommand_RunE_def Let_def)
next
  show "missingVaultAddress = Errorf
     (''when using the vault kubeconfig store, the API address of the vault has to be provided either by ''
      @ ''command line argument \"vaultAPI\"'' @ '', via ''
      @ ''environment variable \"VAULT_ADDR\"'' @ '' or via '' @ ''SwitchConfig file'') []"
    by (simp add: missingVaultAddress_def)
qed

text \<open>
  The theorem at two runs without any Vault address: the Vault entry first, and the Vault
  entry after an entry of unknown kind.
\<close>

theorem missing_vault_address_fails_witness:
  "rootCommand_RunE vaultThenUnknownWorld plainFlags = Return missingVaultAddress \<and>
   rootCommand_RunE unknownThenVaultWorld plainFlags = Return (unknownStore unknownEntry)"
proof -
  have load: "LoadConfigFromFile vaultThenUnknownWorld (configPath plainFlags) =
      Inr (Some \<lparr>KubeconfigPaths = [vaultEntry, unknownEntry], VaultAPIAddress = []\<rparr>)"
    "LoadConfigFromFile unknownThenVaultWorld (configPath plainFlags) =
      Inr (Some \<lparr>KubeconfigPaths = [unknownEntry, vaultEntry], VaultAPIAddress = []\<rparr>)"
    by (simp_all add: exampleWorld_def unknownThenVaultWorld_def vaultThenUnknownWorld_def)
  have cfg: "\<lparr>KubeconfigPaths = [vaultEntry, unknownEntry], VaultAPIAddress = []\<rparr> =
      appendKubeconfigPathFlag plainFlags (loadedConfig
        (Some \<lparr>KubeconfigPaths = [vaultEntry, unknownEntry], VaultAPIAddress = []\<rparr>))"
    "\<lparr>KubeconfigPaths = [unknownEntry, vaultEntry], VaultAPIAddress = []\<rparr> =
      appendKubeconfigPathFlag plainFlags (loadedConfig
        (Some \<lparr>KubeconfigPaths = [unknownEntry, vaultEntry], VaultAPIAddress = []\<rparr>))"
    by (simp_all add: appendKubeconfigPathFlag_def loadedConfig_def plainFlags_def exampleFlags_def)
  have vault: "StoreKindVault \<in> Store ` set (KubeconfigPaths
        \<lparr>KubeconfigPaths = [vaultEntry, unknownEntry], VaultAPIAddress = []\<rparr>)"
    "StoreKindVault \<in> Store ` set (KubeconfigPaths
        \<lparr>KubeconfigPaths = [unknownEntry, vaultEntry], VaultAPIAddress = []\<rparr>)"
    by (simp_all add: example_defs)
  have api: "vaultAPI vaultThenUnknownWorld plainFlags
        (VaultAPIAddress \<lparr>KubeconfigPaths = [vaultEntry, unknownEntry], VaultAPIAddress = []\<rparr>) = []"
    "vaultAPI unknownThenVaultWorld plainFlags
        (VaultAPIAddress \<lparr>KubeconfigPaths = [unknownEntry, vaultEntry], VaultAPIAddress = []\<rparr>) = []"
    by (simp_all add: example_defs vaultAPI_def)
  have r1: "rootCommand_RunE vaultThenUnknownWorld plainFlags = Return missingVaultAddress"
    using missing_vault_address_fails[OF load(1) cfg(1) vault(1) api(1)]
    by (simp add: knownKind_def example_defs)
  have r2: "rootCommand_RunE unknownThenVaultWorld plainFlags = Return (unknownStore unknownEntry)"
    using missing_vault_address_fails[OF load(2) cfg(2) vault(2) api(2)]
    by (simp add: knownKind_def example_defs)
  from r1 r2 show ?thesis by simp
qed

text \<open>
  C7. At most one command-line entry is added to the configured list. The list the command
  works on is the list of the loaded configuration, followed by exactly one entry with the
  path of \<open>--kubeconfig-path\<close> and the kind of \<open>--store\<close> if the path is non-empty, and by
  nothing if it is empty; this is the list \<open>pkg.Switcher\<close> is called with.
\<close>

theorem at_most_one_command_line_entry:
  "KubeconfigPaths (appendKubeconfigPathFlag fl cfg) =
     (if kubeconfigPath fl = [] then KubeconfigPaths cfg
      else KubeconfigPaths cfg @ [\<lparr>Path = kubeconfigPath fl, Store = storageBackend fl\<rparr>]) \<and>
   (LoadConfigFromFile w (configPath fl) = Inr loaded \<and> rootCommand_RunE w fl = TailCall c \<longrightarrow>
      KubeconfigPaths (swConfig c) =
        (if kubeconfigPath fl = [] then KubeconfigPaths (loadedConfig loaded)
         else KubeconfigPaths (loadedConfig loaded) @
                [\<lparr>Path = kubeconfigPath fl, Store = storageBackend fl\<rparr>]))"
  by (auto simp: appendKubeconfigPathFlag_def rootCommand_RunE_def Let_def
           split: prod.splits option.splits)

text \<open>The theorem at a run with \<open>--kubeconfig-path /extra\<close> and at a run with the empty path.\<close>

theorem at_most_one_command_line_entry_witness:
  "rootCommand_RunE mixedWorld mixedFlags = TailCall mixedCall \<and>
   KubeconfigPaths (swConfig mixedCall) =
     [vaultEntry, fsEntry, vaultEntry, fsEntry2] @ [\<lparr>Path = ''/extra'', Store = ''filesystem''\<rparr>] \<and>
   rootCommand_RunE plainWorld plainFlags = TailCall plainCall \<and>
   KubeconfigPaths (swConfig plainCall) = [fsEntry, vaultEntry]"
proof -
  have load: "LoadConfigFromFile mixedWorld (configPath mixedFlags) =
      Inr (Some \<lparr>KubeconfigPaths = mixedPaths, VaultAPIAddress = ''https://file.example''\<rparr>)"
    "LoadConfigFromFile plainWorld (configPath plainFlags) =
      Inr (Some \<lparr>KubeconfigPaths = [fsEntry, vaultEntry],
                 VaultAPIAddress = ''https://file.example''\<rparr>)"
    by (simp_all add: mixedWorld_def plainWorld_def exampleWorld_def)
  have flag: "kubeconfigPath mixedFlags = ''/extra''" "storageBackend mixedFlags = ''filesystem''"
    "kubeconfigPath plainFlags = []"
    by (simp_all add: mixedFlags_def plainFlags_def exampleFlags_def)
  from at_most_one_command_line_entry[where w = mixedWorld and fl = mixedFlags and c = mixedCall
      and loaded = "Some \<lparr>KubeconfigPaths = mixedPaths, VaultAPIAddress = ''https://file.example''\<rparr>"]
    at_most_one_command_line_entry[where w = plainWorld and fl = plainFlags and c = plainCall
      and loaded = "Some \<lparr>KubeconfigPaths = [fsEntry, vaultEntry],
                          VaultAPIAddress = ''https://file.example''\<rparr>"]
    load flag mixed_run plain_run
  show ?thesis by (simp add: loadedConfig_def mixedPaths_def)
qed

text \<open>
  C8. The stores list passed to the core keeps the order of first registration: the kinds of
  the stores \<open>pkg.Switcher\<close> is called with are the kinds of the entries in the order in
  which each kind first occurs among them.
\<close>

theorem stores_in_first_registration_order:
  "rootCommand_RunE w fl = TailCall c \<Longrightarrow>
   map kindOfStore (swStores c) = firstOccurrences (map Store (KubeconfigPaths (swConfig c)))"
proof -
  assume "rootCommand_RunE w fl = TailCall c"
  then obtain vars where
    run: "storesLoop w fl (swConfig c) (KubeconfigPaths (swConfig c)) initialLoopVars = (vars, None)"
    and st: "swStores c = stores vars"
    by (rule rootCommand_RunE_TailCall)
  from storesLoop_kinds[OF initialLoopVars_invariant run] st
  show ?thesis by (simp add: initialLoopVars_def)
qed

text \<open>
  The theorem at a run whose entries are of the kinds vault, filesystem, vault, filesystem,
  filesystem: the Vault store comes first, the filesystem store second.
\<close>

theorem stores_in_first_registration_order_witness:
  "rootCommand_RunE mixedWorld mixedFlags = TailCall mixedCall \<and>
   map Store (KubeconfigPaths (swConfig mixedCall)) =
     [''vault'', ''filesystem'', ''vault'', ''filesystem'', ''filesystem''] \<and>
   map kindOfStore (swStores mixedCall) = [''vault'', ''filesystem'']"
proof -
  have kinds: "map Store (KubeconfigPaths (swConfig mixedCall)) =
     [''vault'', ''filesystem'', ''vault'', ''filesystem'', ''filesystem'']"
    by (simp add: example_defs)
  from stores_in_first_registration_order[OF mixed_run] kinds mixed_run
  show ?thesis by simp
qed

text \<open>
  C9. The run-immediately override of the hooks command defaults to true: an invocation of
  the hooks command that does not set \<open>--run-immediately\<close> calls \<open>hooks.Hooks\<close> with
  \<open>runImmediately = true\<close>.
\<close>

theorem hooks_run_immediately_by_default:
  "argRunImmediately args = None \<Longrightarrow>
   \<exists>c. hookCmd_Execute w args = TailCall c \<and> hkRunImmediately c = True"
  by (simp add: hookCmd_Execute_def hookCmd_RunE_def hookCmd_ParseFlags_def init_def)

text \<open>The theorem at the invocation \<open>hooks --hook-name refresh\<close>.\<close>

theorem hooks_run_immediately_by_default_witness:
  "argRunImmediately
     \<lparr>argConfigPath = None, argStateDirectory = None, argHookName = Some ''refresh'',
      argRunImmediately = None\<rparr> = None \<and>
   (\<exists>c. hookCmd_Execute (exampleWorld [(''HOME'', ''/home/op'')] (None, None) [] [])
          \<lparr>argConfigPath = None, argStateDirectory = None, argHookName = Some ''refresh'',
           argRunImmediately = None\<rparr> = TailCall c \<and>
        hkHookName c = ''refresh'' \<and> hkRunImmediately c = True)"
proof -
  have unset: "argRunImmediately
     \<lparr>argConfigPath = None, argStateDirectory = None, argHookName = Some ''refresh'',
      argRunImmediately = None\<rparr> = None"
    by simp
  from hooks_run_immediately_by_default[OF unset,
      of "exampleWorld [(''HOME'', ''/home/op'')] (None, None) [] []"]
  show ?thesis
    by (simp add: hookCmd_Execute_def hookCmd_RunE_def hookCmd_ParseFlags_def)
qed




end
